theory Spec2Isabelle
  imports Complex_Main
begin

section \<open>Greedy submodular selection (apricot): data model\<close>

text \<open>
  The two selectors of the package, \<^verbatim>\<open>FacilityLocationSelection\<close> and
  \<^verbatim>\<open>FeatureBasedSelection\<close>, are embedded as pure functions. A numpy
  \<^verbatim>\<open>float64\<close> vector is a list of reals and a two-dimensional array is the list
  of its rows; arithmetic is exact, so rounding and infinities are outside the model. NaN is
  modelled where the code compares against it, in the input checks of the feature-based
  \<^verbatim>\<open>fit\<close> (type \<open>float64\<close> below); the selection itself is modelled on finite data.
  The selection mask (\<^verbatim>\<open>int8\<close>, only ever 0 or 1) is a list of integers. Every
  \<^verbatim>\<open>raise\<close> reachable in the modelled code is a value of \<open>error\<close>, returned as
  \<open>Inl\<close>.
\<close>

type_synonym vec = "real list"
type_synonym matrix = "real list list"

datatype error =
    ZeroSizeArray
  | NegativeValues
  | UnboundName string
  | EmptyQueue
  | OutputNotBroadcastable

text \<open>
  \<open>ZeroSizeArray\<close> is numpy's \<^verbatim>\<open>ValueError\<close> for \<^verbatim>\<open>argmax\<close> or
  \<^verbatim>\<open>min\<close> of an empty array, \<open>NegativeValues\<close> is
  \<^verbatim>\<open>ValueError("X cannot contain negative values.")\<close>, \<open>UnboundName v\<close> is
  Python's \<^verbatim>\<open>NameError\<close> (or \<^verbatim>\<open>UnboundLocalError\<close>) for reading the name
  \<open>v\<close> before it is assigned, \<open>EmptyQueue\<close> belongs to the priority queue, and
  \<open>OutputNotBroadcastable\<close> is numpy's \<^verbatim>\<open>ValueError\<close> for an in-place operation
  whose result has more dimensions than the array it is to be stored in.
\<close>

subsection \<open>The numpy operations used by the selectors\<close>

definition column :: "matrix \<Rightarrow> nat \<Rightarrow> vec" where
  \<comment> \<open>\<^verbatim>\<open>X[:, idx]\<close>\<close>
  "column X idx = map (\<lambda>row. row ! idx) X"

definition maximum :: "vec \<Rightarrow> vec \<Rightarrow> vec" where
  "maximum a b = map2 max a b"

definition fmin :: "vec \<Rightarrow> vec \<Rightarrow> vec" where
  "fmin a b = map2 min a b"

definition ones_like :: "vec \<Rightarrow> vec" where
  "ones_like a = replicate (length a) 1"

definition vadd :: "vec \<Rightarrow> vec \<Rightarrow> vec" where
  "vadd a b = map2 (+) a b"

definition vsub :: "vec \<Rightarrow> vec \<Rightarrow> vec" where
  "vsub a b = map2 (-) a b"

definition zeros :: "nat \<Rightarrow> vec" where
  "zeros n = replicate n 0"

fun argmax_scan :: "nat \<Rightarrow> real \<Rightarrow> nat \<Rightarrow> vec \<Rightarrow> nat" where
  "argmax_scan best bv i [] = best"
| "argmax_scan best bv i (x # xs) =
     (if bv < x then argmax_scan i x (Suc i) xs else argmax_scan best bv (Suc i) xs)"

definition argmax :: "vec \<Rightarrow> error + nat" where
  \<comment> \<open>\<^verbatim>\<open>numpy.argmax\<close>: the first index holding the maximum; an empty array raises.\<close>
  "argmax xs = (case xs of [] \<Rightarrow> Inl ZeroSizeArray | x # rest \<Rightarrow> Inr (argmax_scan 0 x 1 rest))"

fun fill_gains :: "(nat \<Rightarrow> real) \<Rightarrow> int list \<Rightarrow> nat list \<Rightarrow> vec \<Rightarrow> vec" where
  \<comment> \<open>The \<^verbatim>\<open>prange\<close> loop shared by the kernels: a selected index is skipped, any
      other index writes its own slot of \<open>gains\<close>. The iterations are independent, so
      running them in index order gives the result of the parallel loop.\<close>
  "fill_gains gain_of mask_v [] gains = gains"
| "fill_gains gain_of mask_v (idx # rest) gains =
     (if mask_v ! idx = 1 then fill_gains gain_of mask_v rest gains
      else fill_gains gain_of mask_v rest (gains[idx := gain_of idx]))"

section \<open>Facility location\<close>

subsection \<open>Pairwise similarity functions\<close>

definition dot_rows :: "vec \<Rightarrow> vec \<Rightarrow> real" where
  "dot_rows a b = sum_list (map2 (*) a b)"

definition gram :: "matrix \<Rightarrow> matrix" where
  \<comment> \<open>\<^verbatim>\<open>numpy.dot(X, X.T)\<close>\<close>
  "gram X = map (\<lambda>xi. map (\<lambda>xj. dot_rows xi xj) X) X"

definition norm_fn :: "matrix \<Rightarrow> vec" where
  \<comment> \<open>\<^verbatim>\<open>norm = lambda x: numpy.sum(x*x, axis=1).reshape(x.shape[0], 1)\<close>: the
      column vector of the rows' sums of squares, kept as the list of its entries.\<close>
  "norm_fn x = map (\<lambda>row. sum_list (map (\<lambda>v. v * v) row)) x"

definition outer :: "vec \<Rightarrow> vec \<Rightarrow> matrix" where
  \<comment> \<open>\<^verbatim>\<open>s.dot(t.T)\<close> for two column vectors\<close>
  "outer s t = map (\<lambda>a. map (\<lambda>b. a * b) t) s"

definition mdiv :: "matrix \<Rightarrow> matrix \<Rightarrow> matrix" where
  "mdiv A B = map2 (\<lambda>ra rb. map2 (/) ra rb) A B"

definition mscale :: "real \<Rightarrow> matrix \<Rightarrow> matrix" where
  "mscale c A = map (map (\<lambda>v. c * v)) A"

definition mneg :: "matrix \<Rightarrow> matrix" where
  "mneg A = map (map uminus) A"

definition add_col :: "matrix \<Rightarrow> vec \<Rightarrow> matrix" where
  \<comment> \<open>\<^verbatim>\<open>A + s\<close> with \<open>s\<close> of shape (n, 1): broadcasting adds \<open>s[i]\<close> along row \<open>i\<close>.\<close>
  "add_col A s = map2 (\<lambda>row si. map (\<lambda>v. v + si) row) A s"

definition transposeT :: "matrix \<Rightarrow> matrix" where
  \<comment> \<open>\<^verbatim>\<open>A.T\<close>\<close>
  "transposeT A = (case A of [] \<Rightarrow> [] | r # _ \<Rightarrow> map (\<lambda>j. column A j) [0..<length r])"

definition cosine :: "matrix \<Rightarrow> matrix" where
  \<comment> \<open>\<^verbatim>\<open>numpy.dot(X, X.T) / (norm(X).dot(norm(X).T))\<close>\<close>
  "cosine X = mdiv (gram X) (outer (norm_fn X) (norm_fn X))"

definition euclidean :: "matrix \<Rightarrow> matrix" where
  \<comment> \<open>\<^verbatim>\<open>-(-2 * numpy.dot(X, X.T) + norm(X)).T + norm(X)\<close>\<close>
  "euclidean X = add_col (mneg (transposeT (add_col (mscale (- 2) (gram X)) (norm_fn X)))) (norm_fn X)"

datatype pairwise_name = Corr | Cosine | Euclidean | Callable "matrix \<Rightarrow> matrix"

definition pairwise_func :: "(matrix \<Rightarrow> matrix) \<Rightarrow> pairwise_name \<Rightarrow> matrix \<Rightarrow> matrix" where
  \<comment> \<open>The dispatch of \<^verbatim>\<open>__init__\<close>. \<open>corrcoef\<close> stands for
      \<^verbatim>\<open>numpy.corrcoef(X, rowvar=True)\<close>, a numpy routine taken as a parameter.\<close>
  "pairwise_func corrcoef name =
     (case name of Corr \<Rightarrow> corrcoef | Cosine \<Rightarrow> cosine | Euclidean \<Rightarrow> euclidean
      | Callable f \<Rightarrow> f)"

definition fill_diagonal :: "matrix \<Rightarrow> real \<Rightarrow> matrix" where
  \<comment> \<open>\<^verbatim>\<open>numpy.fill_diagonal\<close>: a row too short to hold its diagonal slot is left alone.\<close>
  "fill_diagonal A v = map2 (\<lambda>i row. row[i := v]) [0..<length A] A"

subsection \<open>The dense kernel\<close>

definition fl_gain :: "matrix \<Rightarrow> vec \<Rightarrow> nat \<Rightarrow> real" where
  \<comment> \<open>\<^verbatim>\<open>a = numpy.maximum(X[:,idx], current_values); (a - current_values).sum()\<close>,
      the two lines found in \<^verbatim>\<open>select_next\<close> and again in the lazy loop of \<^verbatim>\<open>fit\<close>.\<close>
  "fl_gain X current_values idx =
     (let a = maximum (column X idx) current_values in sum_list (vsub a current_values))"

definition select_next :: "matrix \<Rightarrow> vec \<Rightarrow> vec \<Rightarrow> int list \<Rightarrow> error + (vec \<times> nat)" where
  \<comment> \<open>Returns the \<open>gains\<close> array as the loop leaves it (the source writes into the
      caller's array) together with \<^verbatim>\<open>numpy.argmax(gains)\<close>.\<close>
  "select_next X gains current_values mask_v =
     (let gains' = fill_gains (fl_gain X current_values) mask_v [0..<length X] gains
      in case argmax gains' of Inl e \<Rightarrow> Inl e | Inr best \<Rightarrow> Inr (gains', best))"

section \<open>The lazy priority queue\<close>

text \<open>
  Modelled from the spec: the priority queue \<^verbatim>\<open>self.pq\<close> with its methods
  \<^verbatim>\<open>add\<close>, \<^verbatim>\<open>pop\<close> and \<^verbatim>\<open>remove\<close> lives in the base class
  \<^verbatim>\<open>SubmodularSelection\<close>, which is not among the sources. Following the spec's
  section on the lazy priority queue, the queue holds one entry per item, \<open>pq_add\<close> sets
  or overwrites the item's key, \<open>pq_pop\<close> removes and returns the best entry and fails
  with \<open>EmptyQueue\<close> on an empty queue, and \<open>pq_remove\<close> deletes the entry of
  an item. The callers pass the negated gain as the key and negate the popped key again, so the
  best entry is the one with the least key, that is the largest gain estimate. The spec gives
  a failure to \<^verbatim>\<open>pop\<close> only; \<open>pq_remove\<close> has none, and for an identity that has no
  entry (Python's \<^verbatim>\<open>None\<close> in particular) there is nothing to delete. One point is left
  open by the spec and fixed here: among entries with equal keys \<open>pq_pop\<close> returns the one
  with the least item index. The queue of a fresh selector is empty.
\<close>

type_synonym pq = "(nat \<times> real) list"

definition pq_add :: "nat \<Rightarrow> real \<Rightarrow> pq \<Rightarrow> pq" where
  \<comment> \<open>Modelled from the spec: \<^verbatim>\<open>self.pq.add(item, weight)\<close>, insert or overwrite.\<close>
  "pq_add item weight q = (item, weight) # filter (\<lambda>e. fst e \<noteq> item) q"

fun pq_top :: "nat \<times> real \<Rightarrow> pq \<Rightarrow> nat \<times> real" where
  \<comment> \<open>Modelled from the spec: the entry \<^verbatim>\<open>pop\<close> returns, least key first, then
      least item index.\<close>
  "pq_top b [] = b"
| "pq_top b (e # q) =
     pq_top (if snd e < snd b \<or> (snd e = snd b \<and> fst e < fst b) then e else b) q"

definition pq_pop :: "pq \<Rightarrow> error + ((real \<times> nat) \<times> pq)" where
  \<comment> \<open>Modelled from the spec: \<^verbatim>\<open>weight, item = self.pq.pop()\<close>.\<close>
  "pq_pop q =
     (case q of [] \<Rightarrow> Inl EmptyQueue
      | e # rest \<Rightarrow> (let t = pq_top e rest
                     in Inr ((snd t, fst t), filter (\<lambda>e. fst e \<noteq> fst t) q)))"

definition pq_remove :: "nat option \<Rightarrow> pq \<Rightarrow> pq" where
  \<comment> \<open>Modelled from the spec: \<^verbatim>\<open>self.pq.remove(item)\<close> deletes the entry with that
      identity; the argument is a Python value, either an item index or \<^verbatim>\<open>None\<close>.\<close>
  "pq_remove item q = filter (\<lambda>e. Some (fst e) \<noteq> item) q"

subsection \<open>Facts about the queue needed for the termination of the lazy search\<close>

lemma pq_top_mem: "pq_top b q \<in> set (b # q)"
  by (induction q arbitrary: b) auto

lemma pq_top_le: "e \<in> set (b # q) \<Longrightarrow> snd (pq_top b q) \<le> snd e"
proof (induction q arbitrary: b e)
  case Nil
  then show ?case by simp
next
  case (Cons a q)
  let ?b' = "if snd a < snd b \<or> (snd a = snd b \<and> fst a < fst b) then a else b"
  have le: "snd ?b' \<le> snd a" "snd ?b' \<le> snd b" by auto
  from Cons.prems consider "e = b" | "e = a" | "e \<in> set q" by auto
  then show ?case
  proof cases
    case 1
    have "snd (pq_top ?b' q) \<le> snd ?b'" using Cons.IH[of ?b' ?b'] by simp
    with le 1 show ?thesis by simp
  next
    case 2
    have "snd (pq_top ?b' q) \<le> snd ?b'" using Cons.IH[of ?b' ?b'] by simp
    with le 2 show ?thesis by simp
  next
    case 3
    then show ?thesis using Cons.IH[of e ?b'] by simp
  qed
qed

lemma pq_pop_Inr:
  assumes "pq_pop q = Inr ((w, idx), q1)"
  shows "(idx, w) \<in> set q" and "q1 = filter (\<lambda>e. fst e \<noteq> idx) q"
    and "\<forall>e\<in>set q. w \<le> snd e"
proof -
  from assms obtain e rest where q: "q = e # rest"
    by (cases q) (auto simp: pq_pop_def)
  let ?t = "pq_top e rest"
  from assms q have t: "w = snd ?t" "idx = fst ?t" and q1: "q1 = filter (\<lambda>e. fst e \<noteq> fst ?t) q"
    by (auto simp: pq_pop_def Let_def)
  have "?t \<in> set q" using pq_top_mem[of e rest] q by simp
  then show "(idx, w) \<in> set q" using t by simp
  show "q1 = filter (\<lambda>e. fst e \<noteq> idx) q" using q1 t by simp
  show "\<forall>e\<in>set q. w \<le> snd e" using pq_top_le[of _ e rest] q t by auto
qed

lemma length_filter_conj_le: "length (filter (\<lambda>x. R x \<and> P x) q) \<le> length (filter P q)"
  by (induction q) auto

lemma length_filter_imp_le:
  "(\<And>e. P' e \<Longrightarrow> P e) \<Longrightarrow> length (filter P' q) \<le> length (filter P q)"
  by (induction q) auto

lemma filter_drop_counted:
  assumes "x \<in> set q" "P x" "\<not> R x" "\<And>e. P' e \<Longrightarrow> P e"
  shows "length (filter P' (filter R q)) < length (filter P q)"
proof -
  have "length (filter P' (filter R q)) \<le> length (filter P (filter R q))"
    using assms(4) by (rule length_filter_imp_le)
  also have "\<dots> < length (filter P q)"
    using assms(1-3)
  proof (induction q)
    case Nil
    then show ?case by simp
  next
    case (Cons a q)
    show ?case
    proof (cases "a = x")
      case True
      have "length (filter P (filter R (a # q))) = length (filter (\<lambda>x. R x \<and> P x) q)"
        using True Cons.prems by (simp add: conj_commute)
      also have "\<dots> \<le> length (filter P q)" by (rule length_filter_conj_le)
      also have "\<dots> < length (filter P (a # q))" using True Cons.prems by simp
      finally show ?thesis .
    next
      case False
      with Cons.prems have "x \<in> set q" by simp
      from Cons.IH[OF this Cons.prems(2,3)] show ?thesis by simp
    qed
  qed
  finally show ?thesis .
qed

lemma lazy_search_measure:
  assumes "pq_pop q = Inr ((w, idx), q1)" and "\<not> - w \<le> best_gain"
    and "best_gain \<le> bg'" and "g \<le> bg'"
  shows "length (filter (\<lambda>e. bg' < - snd e) (pq_add idx (- g) q1))
           < length (filter (\<lambda>e. best_gain < - snd e) q)"
proof -
  note pop = pq_pop_Inr[OF assms(1)]
  have "length (filter (\<lambda>e. bg' < - snd e) (pq_add idx (- g) q1))
          = length (filter (\<lambda>e. bg' < - snd e) (filter (\<lambda>e. fst e \<noteq> idx) q))"
    using assms(4) by (simp add: pq_add_def pop(2))
  also have "\<dots> < length (filter (\<lambda>e. best_gain < - snd e) q)"
  proof (rule filter_drop_counted[where x = "(idx, w)"])
    show "(idx, w) \<in> set q" by (rule pop(1))
    show "best_gain < - snd (idx, w)" using assms(2) by simp
    show "\<not> fst (idx, w) \<noteq> idx" by simp
    show "\<And>e. bg' < - snd e \<Longrightarrow> best_gain < - snd e" using assms(3) by simp
  qed
  finally show ?thesis .
qed

subsection \<open>One lazy round\<close>

text \<open>
  The \<^verbatim>\<open>while True\<close> loop of a lazy round, identical in both selectors up to the
  gain computation \<open>gain_of\<close>. It starts from \<^verbatim>\<open>best_gain = 0.\<close> and
  \<^verbatim>\<open>best_idx = None\<close> and ends at the \<^verbatim>\<open>break\<close>, after
  \<^verbatim>\<open>self.pq.remove(best_idx)\<close>; the result is the value of \<^verbatim>\<open>best_idx\<close> at
  the \<^verbatim>\<open>break\<close>, an item index or still \<^verbatim>\<open>None\<close>, with the queue. Each pass
  either leaves the loop or lowers the number of entries whose gain estimate exceeds
  \<open>best_gain\<close>, hence the loop ends.
\<close>

function lazy_search ::
  "(nat \<Rightarrow> real) \<Rightarrow> real \<Rightarrow> nat option \<Rightarrow> pq \<Rightarrow> error + (nat option \<times> pq)" where
  "lazy_search gain_of best_gain best_idx q =
     (case pq_pop q of Inl e \<Rightarrow> Inl e
      | Inr ((w, idx), q1) \<Rightarrow>
          (let prev_gain = - w in
           if best_gain \<ge> prev_gain then
             Inr (best_idx, pq_remove best_idx (pq_add idx (- prev_gain) q1))
           else
             (let gain = gain_of idx; q2 = pq_add idx (- gain) q1 in
              if gain > best_gain then lazy_search gain_of gain (Some idx) q2
              else lazy_search gain_of best_gain best_idx q2)))"
  by pat_completeness auto
termination
proof (relation "measure (\<lambda>(gain_of, best_gain, best_idx, q). length (filter (\<lambda>e. best_gain < - snd e) q))", goal_cases)
  case 1
  show ?case by simp
next
  case (2 gain_of best_gain best_idx q b x q1 w idx prev_gain gain q2)
  then have "pq_pop q = Inr ((w, idx), q1)" by simp
  from lazy_search_measure[OF this, of best_gain gain "gain_of idx"] 2 show ?case by simp
next
  case (3 gain_of best_gain best_idx q b x q1 w idx prev_gain gain q2)
  then have "pq_pop q = Inr ((w, idx), q1)" by simp
  from lazy_search_measure[OF this, of best_gain best_gain "gain_of idx"] 3 show ?case by simp
qed


definition seed_pq :: "vec option \<Rightarrow> int list \<Rightarrow> pq \<Rightarrow> error + pq" where
  \<comment> \<open>\<^verbatim>\<open>for idx, gain in enumerate(gains): if mask[idx] != 1: self.pq.add(idx, -gain)\<close>.
      The name \<^verbatim>\<open>gains\<close> is bound only inside the dense loop; \<open>None\<close> is the
      unbound name.\<close>
  "seed_pq gains mask_v q =
     (case gains of None \<Rightarrow> Inl (UnboundName ''gains'')
      | Some g \<Rightarrow>
          Inr (fold (\<lambda>(idx, gain) q. if mask_v ! idx \<noteq> 1 then pq_add idx (- gain) q else q)
                 (enumerate 0 g) q))"

section \<open>Facility location: \<^verbatim>\<open>fit\<close>\<close>

record fl_state =
  fl_mask :: "int list"
  fl_ranking :: "nat list"
  fl_current_values :: vec
  fl_gains :: "vec option"
  fl_pq :: pq

definition fl_commit :: "matrix \<Rightarrow> nat \<Rightarrow> fl_state \<Rightarrow> fl_state" where
  \<comment> \<open>\<^verbatim>\<open>ranking.append(best_idx); mask[best_idx] = 1;
      current_values = numpy.maximum(X_pairwise[:, best_idx], current_values)\<close>\<close>
  "fl_commit X_pairwise best_idx st =
     st\<lparr>fl_ranking := fl_ranking st @ [best_idx],
        fl_mask := (fl_mask st)[best_idx := 1],
        fl_current_values := maximum (column X_pairwise best_idx) (fl_current_values st)\<rparr>"

fun fl_dense :: "matrix \<Rightarrow> nat \<Rightarrow> nat \<Rightarrow> fl_state \<Rightarrow> error + fl_state" where
  \<comment> \<open>\<^verbatim>\<open>for i in range(self.n_greedy_samples)\<close>; the third argument counts the rounds
      still to run.\<close>
  "fl_dense X_pairwise n 0 st = Inr st"
| "fl_dense X_pairwise n (Suc i) st =
     (case select_next X_pairwise (zeros n) (fl_current_values st) (fl_mask st) of
        Inl e \<Rightarrow> Inl e
      | Inr (gains, best_idx) \<Rightarrow>
          fl_dense X_pairwise n i (fl_commit X_pairwise best_idx (st\<lparr>fl_gains := Some gains\<rparr>)))"

text \<open>
  A lazy round may end with \<^verbatim>\<open>best_idx = None\<close>. The three lines after the loop then
  run with \<^verbatim>\<open>None\<close> as the index, and numpy reads \<^verbatim>\<open>None\<close> in an index as a new
  axis: \<^verbatim>\<open>ranking.append(None)\<close> records \<^verbatim>\<open>None\<close>, \<^verbatim>\<open>mask[None] = True\<close>
  assigns to the whole mask, and \<^verbatim>\<open>X_pairwise[:, None]\<close> has shape \<open>(n, 1, n)\<close>, so
  \<^verbatim>\<open>numpy.maximum(X_pairwise[:, None], current_values)\<close> is the array of shape
  \<open>(n, 1, n)\<close> with entry \<open>max(X_pairwise[p, q], current_values[q])\<close> at \<open>[p, 0, q]\<close>.
  From then on \<^verbatim>\<open>current_values\<close> has three dimensions; it is kept as the list of its
  \<open>n\<close> rows \<open>[p, 0, :]\<close>, and the ranking is a list of item indices and \<^verbatim>\<open>None\<close>.
  \<open>fl_nd_state\<close> holds the variables the loop still uses in that condition.
\<close>

record fl_nd_state =
  nd_mask :: "int list"
  nd_ranking :: "nat option list"
  nd_current_values :: matrix
  nd_pq :: pq

definition fl_commit_none :: "matrix \<Rightarrow> fl_state \<Rightarrow> fl_nd_state" where
  \<comment> \<open>The three lines after the loop with \<^verbatim>\<open>best_idx = None\<close>, from a state in which
      \<^verbatim>\<open>current_values\<close> is still a vector.\<close>
  "fl_commit_none X_pairwise st =
     \<lparr>nd_mask = replicate (length (fl_mask st)) 1,
      nd_ranking = map Some (fl_ranking st) @ [None],
      nd_current_values = map (\<lambda>row. maximum row (fl_current_values st)) X_pairwise,
      nd_pq = fl_pq st\<rparr>"

definition fl_nd_gain :: "matrix \<Rightarrow> matrix \<Rightarrow> nat \<Rightarrow> real" where
  \<comment> \<open>\<^verbatim>\<open>a = numpy.maximum(X_pairwise[:, idx], current_values); (a - current_values).sum()\<close>
      with \<^verbatim>\<open>current_values\<close> of shape \<open>(n, 1, n)\<close>: the column is broadcast along the
      last axis, and the sum runs over all entries.\<close>
  "fl_nd_gain X current_values idx =
     (let a = map (\<lambda>row. maximum (column X idx) row) current_values
      in sum_list (map2 (\<lambda>ra rc. sum_list (vsub ra rc)) a current_values))"

definition fl_nd_commit :: "matrix \<Rightarrow> nat option \<Rightarrow> fl_nd_state \<Rightarrow> fl_nd_state" where
  \<comment> \<open>The three lines after the loop once \<^verbatim>\<open>current_values\<close> has three dimensions,
      for an item index and for \<^verbatim>\<open>None\<close>.\<close>
  "fl_nd_commit X_pairwise best_idx s =
     (case best_idx of
        Some b \<Rightarrow>
          s\<lparr>nd_ranking := nd_ranking s @ [Some b],
            nd_mask := (nd_mask s)[b := 1],
            nd_current_values := map (\<lambda>row. maximum (column X_pairwise b) row) (nd_current_values s)\<rparr>
      | None \<Rightarrow>
          s\<lparr>nd_ranking := nd_ranking s @ [None],
            nd_mask := replicate (length (nd_mask s)) 1,
            nd_current_values := map2 maximum X_pairwise (nd_current_values s)\<rparr>)"

fun fl_lazy_nd :: "matrix \<Rightarrow> nat \<Rightarrow> fl_nd_state \<Rightarrow> error + fl_nd_state" where
  \<comment> \<open>The remaining rounds of the lazy loop after a round that ended with \<^verbatim>\<open>None\<close>.\<close>
  "fl_lazy_nd X_pairwise 0 s = Inr s"
| "fl_lazy_nd X_pairwise (Suc i) s =
     (case lazy_search (fl_nd_gain X_pairwise (nd_current_values s)) 0 None (nd_pq s) of
        Inl e \<Rightarrow> Inl e
      | Inr (best_idx, q) \<Rightarrow>
          fl_lazy_nd X_pairwise i (fl_nd_commit X_pairwise best_idx (s\<lparr>nd_pq := q\<rparr>)))"

datatype fl_result = Indices fl_state | With_none fl_nd_state

definition fl_result_ranking :: "fl_result \<Rightarrow> nat option list" where
  \<comment> \<open>The list \<^verbatim>\<open>ranking\<close> at the \<^verbatim>\<open>return\<close>, from which \<^verbatim>\<open>self.ranking\<close> is built.\<close>
  "fl_result_ranking r =
     (case r of Indices st \<Rightarrow> map Some (fl_ranking st) | With_none s \<Rightarrow> nd_ranking s)"

definition fl_result_mask :: "fl_result \<Rightarrow> int list" where
  "fl_result_mask r = (case r of Indices st \<Rightarrow> fl_mask st | With_none s \<Rightarrow> nd_mask s)"

fun fl_lazy :: "matrix \<Rightarrow> nat \<Rightarrow> fl_state \<Rightarrow> error + fl_result" where
  \<comment> \<open>\<^verbatim>\<open>for i in range(self.n_greedy_samples, self.n_samples)\<close>\<close>
  "fl_lazy X_pairwise 0 st = Inr (Indices st)"
| "fl_lazy X_pairwise (Suc i) st =
     (case lazy_search (fl_gain X_pairwise (fl_current_values st)) 0 None (fl_pq st) of
        Inl e \<Rightarrow> Inl e
      | Inr (Some b, q) \<Rightarrow> fl_lazy X_pairwise i (fl_commit X_pairwise b (st\<lparr>fl_pq := q\<rparr>))
      | Inr (None, q) \<Rightarrow>
          (case fl_lazy_nd X_pairwise i (fl_commit_none X_pairwise (st\<lparr>fl_pq := q\<rparr>)) of
             Inl e \<Rightarrow> Inl e
           | Inr s \<Rightarrow> Inr (With_none s)))"

definition fl_fit :: "nat \<Rightarrow> nat \<Rightarrow> (matrix \<Rightarrow> matrix) \<Rightarrow> matrix \<Rightarrow> error + fl_result" where
  \<comment> \<open>\<^verbatim>\<open>FacilityLocationSelection(n_samples, pairwise_func, n_greedy_samples).fit(X)\<close>
      for a two-dimensional \<open>X\<close>, which passes both shape checks. The result is the
      state at the \<^verbatim>\<open>return\<close>; \<^verbatim>\<open>self.ranking\<close> is its \<open>fl_result_ranking\<close>.\<close>
  "fl_fit n_samples n_greedy_samples pairwise_fn X =
     (let X_pairwise = fill_diagonal (pairwise_fn X) 0;
          n = length X;
          st0 = \<lparr>fl_mask = replicate n 0, fl_ranking = [], fl_current_values = zeros n,
                 fl_gains = None, fl_pq = []\<rparr>
      in case fl_dense X_pairwise n n_greedy_samples st0 of
           Inl e \<Rightarrow> Inl e
         | Inr st1 \<Rightarrow>
             (case seed_pq (fl_gains st1) (fl_mask st1) (fl_pq st1) of
                Inl e \<Rightarrow> Inl e
              | Inr q \<Rightarrow> fl_lazy X_pairwise (n_samples - n_greedy_samples) (st1\<lparr>fl_pq := q\<rparr>)))"

section \<open>Feature based selection\<close>

datatype concave_name = Log | Sqrt | Min_cap | Inverse | Custom "vec \<Rightarrow> vec"

definition concave_func :: "concave_name \<Rightarrow> vec \<Rightarrow> vec" where
  \<comment> \<open>\<^verbatim>\<open>self.concave_func\<close> as \<^verbatim>\<open>__init__\<close> sets it.\<close>
  "concave_func name X =
     (case name of
        Log \<Rightarrow> map (\<lambda>x. ln (x + 1)) X
      | Sqrt \<Rightarrow> map sqrt X
      | Min_cap \<Rightarrow> fmin X (ones_like X)
      | Inverse \<Rightarrow> map (\<lambda>x. 1 / (1 + x)) X
      | Custom f \<Rightarrow> f X)"

subsection \<open>The dense kernels\<close>

definition select_sqrt_next :: "matrix \<Rightarrow> vec \<Rightarrow> vec \<Rightarrow> vec \<Rightarrow> int list \<Rightarrow> error + (vec \<times> nat)" where
  "select_sqrt_next X gains current_values current_concave_values mask_v =
     (let gains' = fill_gains
            (\<lambda>idx. let a = map sqrt (vadd current_values (X ! idx))
                    in sum_list (vsub a current_concave_values))
            mask_v [0..<length X] gains
      in case argmax gains' of Inl e \<Rightarrow> Inl e | Inr best \<Rightarrow> Inr (gains', best))"

definition select_log_next :: "matrix \<Rightarrow> vec \<Rightarrow> vec \<Rightarrow> vec \<Rightarrow> int list \<Rightarrow> error + (vec \<times> nat)" where
  "select_log_next X gains current_values current_concave_values mask_v =
     (let gains' = fill_gains
            (\<lambda>idx. let a = map (\<lambda>v. ln (v + 1)) (vadd current_values (X ! idx))
                    in sum_list (vsub a current_concave_values))
            mask_v [0..<length X] gains
      in case argmax gains' of Inl e \<Rightarrow> Inl e | Inr best \<Rightarrow> Inr (gains', best))"

definition select_inv_next :: "matrix \<Rightarrow> vec \<Rightarrow> vec \<Rightarrow> vec \<Rightarrow> int list \<Rightarrow> error + (vec \<times> nat)" where
  "select_inv_next X gains current_values current_concave_values mask_v =
     (let gains' = fill_gains
            (\<lambda>idx. let a = map (\<lambda>v. 1 / v) (vadd (map (\<lambda>v. 1 + v) current_values) (X ! idx))
                    in sum_list (vsub a current_concave_values))
            mask_v [0..<length X] gains
      in case argmax gains' of Inl e \<Rightarrow> Inl e | Inr best \<Rightarrow> Inr (gains', best))"

definition select_min_next :: "matrix \<Rightarrow> vec \<Rightarrow> vec \<Rightarrow> vec \<Rightarrow> int list \<Rightarrow> error + (vec \<times> nat)" where
  "select_min_next X gains current_values current_concave_values mask_v =
     (let gains' = fill_gains
            (\<lambda>idx. let a = fmin current_values (X ! idx)
                    in sum_list (vsub a current_concave_values))
            mask_v [0..<length X] gains
      in case argmax gains' of Inl e \<Rightarrow> Inl e | Inr best \<Rightarrow> Inr (gains', best))"

fun select_custom_loop ::
  "(vec \<Rightarrow> vec) \<Rightarrow> matrix \<Rightarrow> vec \<Rightarrow> vec \<Rightarrow> int list \<Rightarrow> nat list \<Rightarrow> vec \<Rightarrow> real \<Rightarrow> int
     \<Rightarrow> error + (vec \<times> int)" where
  \<comment> \<open>The sequential loop of \<^verbatim>\<open>select_custom_next\<close>. Its update
      \<^verbatim>\<open>best_gain = gain\<close> reads a name that is bound nowhere in the function or the
      module, so the branch raises before \<^verbatim>\<open>best_idx = idx\<close> runs.\<close>
  "select_custom_loop f X current_values current_concave_values mask_v [] gains best_gain best_idx =
     Inr (gains, best_idx)"
| "select_custom_loop f X current_values current_concave_values mask_v (idx # rest) gains best_gain best_idx =
     (if mask_v ! idx = 1
      then select_custom_loop f X current_values current_concave_values mask_v rest gains
             best_gain best_idx
      else (let a = f (vadd current_values (X ! idx));
                gains' = gains[idx := sum_list (vsub a current_concave_values)]
            in if gains' ! idx > best_gain then Inl (UnboundName ''gain'')
               else select_custom_loop f X current_values current_concave_values mask_v rest gains'
                      best_gain best_idx))"

definition select_custom_next ::
  "matrix \<Rightarrow> vec \<Rightarrow> vec \<Rightarrow> vec \<Rightarrow> int list \<Rightarrow> (vec \<Rightarrow> vec) \<Rightarrow> error + (vec \<times> int)" where
  "select_custom_next X gains current_values current_concave_values mask_v f =
     select_custom_loop f X current_values current_concave_values mask_v [0..<length X] gains
       0 (- 1)"

subsection \<open>\<^verbatim>\<open>fit\<close>\<close>

definition py_index :: "nat \<Rightarrow> int \<Rightarrow> nat" where
  \<comment> \<open>The position a Python index denotes in a sequence of length \<open>n\<close>; a negative
      index counts from the end. The dense kernels return an index in \<open>range(n)\<close> or,
      for the custom kernel, \<open>-1\<close>, both in range for \<open>n > 0\<close>.\<close>
  "py_index n i = (if i < 0 then nat (int n + i) else nat i)"

record fb_state =
  fb_mask :: "int list"
  fb_ranking :: "int list"
  fb_current_values :: vec
  fb_current_concave_values :: vec
  fb_gains :: "vec option"
  fb_pq :: pq

definition fb_gain :: "concave_name \<Rightarrow> matrix \<Rightarrow> vec \<Rightarrow> vec \<Rightarrow> nat \<Rightarrow> real" where
  \<comment> \<open>The lazy loop's \<^verbatim>\<open>a = self.concave_func(current_values + X[idx]);
      gain = (a - current_concave_values).sum()\<close>\<close>
  "fb_gain name X current_values current_concave_values idx =
     (let a = concave_func name (vadd current_values (X ! idx))
      in sum_list (vsub a current_concave_values))"

definition fb_commit :: "concave_name \<Rightarrow> matrix \<Rightarrow> int \<Rightarrow> fb_state \<Rightarrow> fb_state" where
  \<comment> \<open>\<^verbatim>\<open>ranking.append(best_idx); mask[best_idx] = True; current_values += X[best_idx];
      current_concave_values = self.concave_func(current_values)\<close>\<close>
  "fb_commit name X best_idx st =
     (let p = py_index (length X) best_idx;
          cv = vadd (fb_current_values st) (X ! p)
      in st\<lparr>fb_ranking := fb_ranking st @ [best_idx],
            fb_mask := (fb_mask st)[p := 1],
            fb_current_values := cv,
            fb_current_concave_values := concave_func name cv\<rparr>)"

definition fb_select ::
  "concave_name \<Rightarrow> matrix \<Rightarrow> vec \<Rightarrow> vec \<Rightarrow> vec \<Rightarrow> int list \<Rightarrow> error + (vec \<times> int)" where
  \<comment> \<open>The \<^verbatim>\<open>if/elif\<close> chain on \<^verbatim>\<open>self.concave_func_name\<close> in the dense loop.\<close>
  "fb_select name X gains current_values current_concave_values mask_v =
     (let as_int = (\<lambda>r. case r of Inl e \<Rightarrow> Inl e | Inr (g, b) \<Rightarrow> Inr (g, int b))
      in case name of
           Sqrt \<Rightarrow> as_int (select_sqrt_next X gains current_values current_concave_values mask_v)
         | Log \<Rightarrow> as_int (select_log_next X gains current_values current_concave_values mask_v)
         | Inverse \<Rightarrow> as_int (select_inv_next X gains current_values current_concave_values mask_v)
         | Min_cap \<Rightarrow> as_int (select_min_next X gains current_values current_concave_values mask_v)
         | Custom f \<Rightarrow> select_custom_next X gains current_values current_concave_values mask_v f)"

fun fb_dense :: "concave_name \<Rightarrow> matrix \<Rightarrow> nat \<Rightarrow> nat \<Rightarrow> fb_state \<Rightarrow> error + fb_state" where
  "fb_dense name X n 0 st = Inr st"
| "fb_dense name X n (Suc i) st =
     (case fb_select name X (zeros n) (fb_current_values st) (fb_current_concave_values st)
             (fb_mask st) of
        Inl e \<Rightarrow> Inl e
      | Inr (gains, best_idx) \<Rightarrow>
          fb_dense name X n i (fb_commit name X best_idx (st\<lparr>fb_gains := Some gains\<rparr>)))"

fun fb_lazy :: "concave_name \<Rightarrow> matrix \<Rightarrow> nat \<Rightarrow> fb_state \<Rightarrow> error + fb_state" where
  \<comment> \<open>\<^verbatim>\<open>for i in range(self.n_greedy_samples, self.n_samples)\<close>. After a round that
      ends with \<^verbatim>\<open>best_idx = None\<close> the lines \<^verbatim>\<open>ranking.append(None)\<close> and
      \<^verbatim>\<open>mask[None] = True\<close> run, and \<^verbatim>\<open>current_values += X[None]\<close> is to add an array
      of shape \<open>(1, n, d)\<close> in place to one of shape \<open>(d,)\<close>, which numpy refuses.\<close>
  "fb_lazy name X 0 st = Inr st"
| "fb_lazy name X (Suc i) st =
     (case lazy_search (fb_gain name X (fb_current_values st) (fb_current_concave_values st))
             0 None (fb_pq st) of
        Inl e \<Rightarrow> Inl e
      | Inr (Some b, q) \<Rightarrow> fb_lazy name X i (fb_commit name X (int b) (st\<lparr>fb_pq := q\<rparr>))
      | Inr (None, q) \<Rightarrow> Inl OutputNotBroadcastable)"

datatype float64 = Finite real | NaN

fun min_nan :: "float64 \<Rightarrow> float64 \<Rightarrow> float64" where
  \<comment> \<open>The minimum of two entries as \<^verbatim>\<open>numpy.min\<close> takes it: NaN propagates.\<close>
  "min_nan (Finite a) (Finite b) = Finite (min a b)"
| "min_nan _ _ = NaN"

fun float_less :: "float64 \<Rightarrow> real \<Rightarrow> bool" where
  \<comment> \<open>\<^verbatim>\<open><\<close> on floats: every comparison with NaN is false.\<close>
  "float_less (Finite a) c = (a < c)"
| "float_less NaN c = False"

definition numpy_min :: "float64 list list \<Rightarrow> error + float64" where
  \<comment> \<open>\<^verbatim>\<open>numpy.min(X)\<close>: the least entry of the array, NaN if the array holds a NaN; an
      array without entries raises.\<close>
  "numpy_min X =
     (case concat X of [] \<Rightarrow> Inl ZeroSizeArray | x # xs \<Rightarrow> Inr (fold min_nan xs x))"

definition fb_fit_checks :: "float64 list list \<Rightarrow> error option" where
  \<comment> \<open>The checks at the head of \<^verbatim>\<open>fit\<close> for a two-dimensional \<open>X\<close>, which passes
      both shape checks; the sign check follows them at the same depth (the file indents it
      with a space before the tabs, which is the same column under eight-column tabs, and an
      indentation error for an interpreter that does not mix tabs and spaces). The result is
      the error raised, or \<open>None\<close> when \<^verbatim>\<open>fit\<close> goes on.\<close>
  "fb_fit_checks X =
     (case numpy_min X of
        Inl e \<Rightarrow> Some e
      | Inr m \<Rightarrow> if float_less m 0 then Some NegativeValues else None)"

definition fb_fit :: "nat \<Rightarrow> concave_name \<Rightarrow> nat \<Rightarrow> matrix \<Rightarrow> error + fb_state" where
  \<comment> \<open>\<^verbatim>\<open>FeatureBasedSelection(n_samples, concave_func, n_greedy_samples).fit(X)\<close> for a
      two-dimensional \<open>X\<close> of finite entries. After the checks \<open>X\<close> has an entry, so a
      first row exists for \<^verbatim>\<open>n, d = X.shape\<close>. The result is the state at the
      \<^verbatim>\<open>return\<close>; \<^verbatim>\<open>self.ranking\<close> is its \<open>fb_ranking\<close> (the conversion to
      an \<^verbatim>\<open>int32\<close> array keeps every index below \<open>2\<^sup>3\<^sup>1\<close>).\<close>
  "fb_fit n_samples name n_greedy_samples X =
     (case fb_fit_checks (map (map Finite) X) of
        Some e \<Rightarrow> Inl e
      | None \<Rightarrow>
            (let n = length X;
                 d = length (hd X);
                 st0 = \<lparr>fb_mask = replicate n 0, fb_ranking = [], fb_current_values = zeros d,
                        fb_current_concave_values = zeros d, fb_gains = None, fb_pq = []\<rparr>
             in case fb_dense name X n n_greedy_samples st0 of
                  Inl e \<Rightarrow> Inl e
                | Inr st1 \<Rightarrow>
                    (case seed_pq (fb_gains st1) (fb_mask st1) (fb_pq st1) of
                       Inl e \<Rightarrow> Inl e
                     | Inr q \<Rightarrow> fb_lazy name X (n_samples - n_greedy_samples) (st1\<lparr>fb_pq := q\<rparr>))))"


section \<open>Properties\<close>

subsection \<open>Unfolding sets for evaluation\<close>

lemmas np_defs = column_def maximum_def fmin_def ones_like_def vadd_def vsub_def zeros_def argmax_def

lemmas pq_defs = pq_add_def pq_pop_def pq_remove_def seed_pq_def

lemmas fl_defs = fl_fit_def fl_commit_def select_next_def fl_gain_def fill_diagonal_def
  fl_commit_none_def fl_nd_gain_def fl_nd_commit_def fl_result_ranking_def fl_result_mask_def

lemmas fb_defs = fb_fit_def fb_commit_def fb_select_def fb_gain_def fb_fit_checks_def
  numpy_min_def py_index_def
  concave_func_def select_sqrt_next_def select_min_next_def select_custom_next_def

lemmas eval_nat = upt_rec numeral_2_eq_2 numeral_3_eq_3 enumerate_eq_zip

subsection \<open>The dense loop over the candidates\<close>

text \<open>\<open>argmax\<close> returns the first position of the greatest entry, as \<^verbatim>\<open>numpy.argmax\<close> does.\<close>

lemma argmax_scan_first_max:
  assumes "length pre = i" and "best < i" and "bv = (pre @ xs) ! best"
    and "\<forall>j<i. (pre @ xs) ! j \<le> bv" and "\<forall>j<best. (pre @ xs) ! j < bv"
  shows "argmax_scan best bv i xs < length (pre @ xs)
       \<and> (\<forall>j<length (pre @ xs). (pre @ xs) ! j \<le> (pre @ xs) ! argmax_scan best bv i xs)
       \<and> (\<forall>j<argmax_scan best bv i xs. (pre @ xs) ! j < (pre @ xs) ! argmax_scan best bv i xs)"
  using assms
proof (induction xs arbitrary: pre i best bv)
  case Nil
  then show ?case by auto
next
  case (Cons x xs)
  have split: "pre @ x # xs = (pre @ [x]) @ xs" by simp
  have at_i: "(pre @ x # xs) ! i = x" using Cons.prems(1) by (simp add: nth_append)
  show ?case
  proof (cases "bv < x")
    case True
    have "argmax_scan i x (Suc i) xs < length ((pre @ [x]) @ xs)
       \<and> (\<forall>j<length ((pre @ [x]) @ xs). ((pre @ [x]) @ xs) ! j \<le> ((pre @ [x]) @ xs) ! argmax_scan i x (Suc i) xs)
       \<and> (\<forall>j<argmax_scan i x (Suc i) xs. ((pre @ [x]) @ xs) ! j < ((pre @ [x]) @ xs) ! argmax_scan i x (Suc i) xs)"
    proof (rule Cons.IH)
      show "length (pre @ [x]) = Suc i" using Cons.prems(1) by simp
      show "i < Suc i" by simp
      show "x = ((pre @ [x]) @ xs) ! i" using at_i by simp
      show "\<forall>j<Suc i. ((pre @ [x]) @ xs) ! j \<le> x"
        using Cons.prems(4) True at_i by (auto simp: less_Suc_eq)
      show "\<forall>j<i. ((pre @ [x]) @ xs) ! j < x"
        using Cons.prems(4) True by auto
    qed
    with True show ?thesis by simp
  next
    case False
    have "argmax_scan best bv (Suc i) xs < length ((pre @ [x]) @ xs)
       \<and> (\<forall>j<length ((pre @ [x]) @ xs). ((pre @ [x]) @ xs) ! j \<le> ((pre @ [x]) @ xs) ! argmax_scan best bv (Suc i) xs)
       \<and> (\<forall>j<argmax_scan best bv (Suc i) xs. ((pre @ [x]) @ xs) ! j < ((pre @ [x]) @ xs) ! argmax_scan best bv (Suc i) xs)"
    proof (rule Cons.IH)
      show "length (pre @ [x]) = Suc i" using Cons.prems(1) by simp
      show "best < Suc i" using Cons.prems(2) by simp
      show "bv = ((pre @ [x]) @ xs) ! best" using Cons.prems(3) by simp
      show "\<forall>j<Suc i. ((pre @ [x]) @ xs) ! j \<le> bv"
        using Cons.prems(4) False at_i by (auto simp: less_Suc_eq)
      show "\<forall>j<best. ((pre @ [x]) @ xs) ! j < bv"
        using Cons.prems(5) by simp
    qed
    with False show ?thesis by simp
  qed
qed

lemma argmax_first_max:
  assumes "argmax xs = Inr b"
  shows "b < length xs \<and> (\<forall>j<length xs. xs ! j \<le> xs ! b) \<and> (\<forall>j<b. xs ! j < xs ! b)"
proof -
  from assms obtain x rest where xs: "xs = x # rest" and b: "b = argmax_scan 0 x 1 rest"
    by (auto simp: argmax_def split: list.splits)
  have "argmax_scan 0 x 1 rest < length ([x] @ rest)
       \<and> (\<forall>j<length ([x] @ rest). ([x] @ rest) ! j \<le> ([x] @ rest) ! argmax_scan 0 x 1 rest)
       \<and> (\<forall>j<argmax_scan 0 x 1 rest. ([x] @ rest) ! j < ([x] @ rest) ! argmax_scan 0 x 1 rest)"
    by (rule argmax_scan_first_max) auto
  then show ?thesis using xs b by simp
qed

lemma fill_gains_length: "length (fill_gains gain_of mask_v idxs gains) = length gains"
  by (induction idxs arbitrary: gains) auto

lemma fill_gains_nth:
  "idx < length gains \<Longrightarrow>
   fill_gains gain_of mask_v idxs gains ! idx =
     (if idx \<in> set idxs \<and> mask_v ! idx \<noteq> 1 then gain_of idx else gains ! idx)"
proof (induction idxs arbitrary: gains)
  case Nil
  then show ?case by simp
next
  case (Cons i idxs)
  show ?case
  proof (cases "mask_v ! i = 1")
    case True
    with Cons show ?thesis by auto
  next
    case False
    have "idx < length (gains[i := gain_of i])" using Cons.prems by simp
    from Cons.IH[OF this] False Cons.prems show ?thesis
      by (cases "i = idx") (auto simp: nth_list_update)
  qed
qed

lemma fl_gain_sum:
  assumes "length current_values = length X"
  shows "fl_gain X current_values idx =
           (\<Sum>j<length X. max (X ! j ! idx) (current_values ! j) - current_values ! j)"
proof -
  let ?a = "maximum (column X idx) current_values"
  have len: "length (vsub ?a current_values) = length X"
    using assms by (simp add: vsub_def maximum_def column_def)
  have nth: "vsub ?a current_values ! j = max (X ! j ! idx) (current_values ! j) - current_values ! j"
    if "j < length X" for j
    using that assms by (simp add: vsub_def maximum_def column_def)
  have "fl_gain X current_values idx = (\<Sum>j = 0..<length X. vsub ?a current_values ! j)"
    unfolding fl_gain_def Let_def by (simp add: sum_list_sum_nth len)
  also have "\<dots> = (\<Sum>j = 0..<length X. max (X ! j ! idx) (current_values ! j) - current_values ! j)"
    by (rule sum.cong) (simp_all add: nth)
  finally show ?thesis by (simp add: atLeast0LessThan)
qed

lemma fl_commit_current_values:
  assumes "length (fl_current_values (st::fl_state)) = length X" and "j < length X"
  shows "fl_current_values (fl_commit X item st) ! j = max (fl_current_values st ! j) (X ! j ! item)"
  using assms by (simp add: fl_commit_def maximum_def column_def max.commute)


subsection \<open>The lazy round\<close>






subsection \<open>Validation and preprocessing\<close>

lemma fold_min_nan_finite:
  "fold min_nan (map Finite xs) (Finite x) = Finite (fold min xs x)"
  by (induction xs arbitrary: x) simp_all

lemma numpy_min_finite_list:
  "(case map Finite ys of [] \<Rightarrow> Inl ZeroSizeArray | x # xs \<Rightarrow> Inr (fold min_nan xs x)) =
   (case ys of [] \<Rightarrow> Inl ZeroSizeArray | x # xs \<Rightarrow> Inr (Finite (fold min xs x)))"
  by (cases ys) (simp_all add: fold_min_nan_finite)

lemma numpy_min_finite:
  "numpy_min (map (map Finite) X) =
     (case concat X of [] \<Rightarrow> Inl ZeroSizeArray | x # xs \<Rightarrow> Inr (Finite (fold min xs x)))"
proof -
  have c: "concat (map (map Finite) X) = map Finite (concat X)"
    by (simp add: map_concat)
  show ?thesis unfolding numpy_min_def c by (rule numpy_min_finite_list)
qed

lemma fb_fit_negative_finite:
  assumes "row \<in> set X" and "v \<in> set row" and "v < 0"
  shows "fb_fit_checks (map (map Finite) X) = Some NegativeValues"
    and "fb_fit n_samples name n_greedy_samples X = Inl NegativeValues"
proof -
  have "v \<in> set (concat X)" using assms(1,2) by auto
  then obtain x xs where c: "concat X = x # xs" by (cases "concat X") auto
  have "fold min xs x = Min (set (x # xs))" by (rule Min.set_eq_fold[symmetric])
  moreover have "v \<in> set (x # xs)" using \<open>v \<in> set (concat X)\<close> c by simp
  ultimately have "fold min xs x \<le> v" by (metis List.finite_set Min_le)
  with assms(3) have "fold min xs x < 0" by simp
  then show chk: "fb_fit_checks (map (map Finite) X) = Some NegativeValues"
    by (simp add: fb_fit_checks_def numpy_min_finite c)
  then show "fb_fit n_samples name n_greedy_samples X = Inl NegativeValues"
    by (simp add: fb_fit_def)
qed

lemma fill_diagonal_nth:
  "i < length A \<Longrightarrow> fill_diagonal A v ! i = (A ! i)[i := v]"
  by (simp add: fill_diagonal_def)

lemma map2_swap: "map2 f xs ys = map2 (\<lambda>y x. f x y) ys xs"
  by (induction xs ys rule: list_induct2') auto

lemma dot_rows_commute: "dot_rows a b = dot_rows b a"
  unfolding dot_rows_def by (subst map2_swap) (simp add: mult.commute)

lemma cosine_nth:
  assumes "i < length X" and "j < length X"
  shows "cosine X ! i ! j = dot_rows (X ! i) (X ! j) / (norm_fn X ! i * norm_fn X ! j)"
  using assms by (simp add: cosine_def mdiv_def gram_def outer_def norm_fn_def)

lemma cosine_symmetric:
  assumes "i < length X" and "j < length X"
  shows "cosine X ! i ! j = cosine X ! j ! i"
  using assms by (simp add: cosine_nth dot_rows_commute[of "X ! i"] mult.commute)

lemma cosine_length: "length (cosine X) = length X"
  by (simp add: cosine_def mdiv_def gram_def outer_def norm_fn_def)

lemma cosine_row_length: "i < length X \<Longrightarrow> length (cosine X ! i) = length X"
  by (simp add: cosine_def mdiv_def gram_def outer_def norm_fn_def)

lemma dot_rows_nonneg:
  assumes "\<forall>v\<in>set a. 0 \<le> v" and "\<forall>v\<in>set b. 0 \<le> v"
  shows "0 \<le> dot_rows a b"
  unfolding dot_rows_def
proof (rule sum_list_nonneg)
  fix p assume "p \<in> set (map2 (*) a b)"
  then obtain x y where "(x, y) \<in> set (zip a b)" and p: "p = x * y" by auto
  then have "x \<in> set a" and "y \<in> set b" by (auto dest: set_zip_leftD set_zip_rightD)
  with assms p show "0 \<le> p" by simp
qed

lemma norm_fn_nonneg: "i < length X \<Longrightarrow> 0 \<le> norm_fn X ! i"
  by (auto simp: norm_fn_def intro!: sum_list_nonneg)

lemma cosine_nonneg:
  assumes "i < length X" and "j < length X" and "\<forall>row\<in>set X. \<forall>v\<in>set row. 0 \<le> v"
  shows "0 \<le> cosine X ! i ! j"
proof -
  have "0 \<le> dot_rows (X ! i) (X ! j)"
    using assms by (intro dot_rows_nonneg) auto
  moreover have "0 \<le> norm_fn X ! i * norm_fn X ! j"
    using assms(1,2) by (simp add: norm_fn_nonneg)
  ultimately show ?thesis using assms(1,2) by (simp add: cosine_nth)
qed


section \<open>The claims\<close>

text \<open>
  Claim C1 (lazy and dense evaluation agree): for a fixed dataset and \<open>k \<le> n\<close>, running
  with \<open>n_greedy_samples = k\<close> and with \<open>n_greedy_samples = 0\<close> gives the same ranking,
  for both objectives. On the code the second run never reaches a ranking: \<^verbatim>\<open>gains\<close> is
  assigned only inside the dense loop, so with no dense round the seeding loop reads an unbound
  name. The theorem evaluates both selectors on a dataset on which the dense run succeeds.
\<close>

theorem fit_without_dense_round_unbound_gains:
  "map_sum id fl_result_ranking (fl_fit 2 2 (\<lambda>X. X) [[0, 3, 1], [3, 0, 2], [1, 2, 0]])
     = Inr [Some 1, Some 0]
   \<and> fl_fit 2 0 (\<lambda>X. X) [[0, 3, 1], [3, 0, 2], [1, 2, 0]] = Inl (UnboundName ''gains'')
   \<and> map_sum id fb_ranking (fb_fit 2 Sqrt 2 [[4, 0], [0, 1]]) = Inr [0, 1]
   \<and> fb_fit 2 Sqrt 0 [[4, 0], [0, 1]] = Inl (UnboundName ''gains'')"
  by (simp add: fl_defs fb_defs np_defs pq_defs eval_nat)

text \<open>
  Claim C2 (no duplicates): for every valid dataset and \<open>k \<le> n\<close> the ranking holds exactly
  \<open>k\<close> pairwise distinct indices, the ones marked in the mask. On the code a dense round
  whose unselected candidates all have gain zero returns the first index of the gain vector,
  selected or not. With three items of pairwise similarity one and \<open>k = n = 3\<close> the third
  dense round picks index 0 again; the feature-based selector does the same on a dataset whose
  second row is zero.
\<close>

theorem dense_fit_ranking_repeats_index:
  "map_sum id (\<lambda>r. (fl_result_ranking r, fl_result_mask r))
       (fl_fit 3 3 (\<lambda>X. X) [[0, 1, 1], [1, 0, 1], [1, 1, 0]])
     = Inr ([Some 0, Some 1, Some 0], [1, 1, 0])
   \<and> map_sum id (\<lambda>s. (fb_ranking s, fb_mask s)) (fb_fit 2 Sqrt 2 [[1], [0]])
     = Inr ([0, 0], [1, 0])"
  by (simp add: fl_defs fb_defs np_defs pq_defs eval_nat)

text \<open>
  Claim C3 (dense argmax restricted to unselected items, first index on ties): the kernels skip
  a selected index when they fill the gain vector, but \<^verbatim>\<open>numpy.argmax\<close> then runs over
  the whole vector, in which the slot of a selected index holds zero. When no unselected
  candidate has a positive gain, an earlier selected index wins. Below, items 0 and 1 are
  selected, item 2 has gain zero, and the kernel returns 0 where the claim asks for 2.
\<close>

theorem select_next_returns_selected_index:
  "select_next [[0, 1, 1], [1, 0, 1], [1, 1, 0]] (zeros 3) [1, 1, 1] [1, 1, 0] = Inr ([0, 0, 0], 0)
   \<and> select_sqrt_next [[1], [0]] (zeros 2) [1] [1] [1, 0] = Inr ([0, 0], 0)"
  by (simp add: fl_defs fb_defs np_defs eval_nat)

text \<open>
  Claim C4 (facility-location gain and update): the gain of an unselected item \<open>idx\<close> is
  the sum over all \<open>j\<close> of \<open>max(similarity[j, idx], current_values[j]) - current_values[j]\<close>,
  in the gain vector a dense round leaves behind and in the value a lazy round recomputes, and
  committing an item sets \<open>current_values[j]\<close> to \<open>max(current_values[j], similarity[j, item])\<close>
  for every \<open>j\<close>.
\<close>

theorem facility_location_gain_and_update:
  fixes st :: fl_state
  assumes "length current_values = length X"
    and "idx < length X" and "length gains = length X" and "mask_v ! idx \<noteq> 1"
    and "select_next X gains current_values mask_v = Inr (gains', best)"
    and "fl_current_values st = current_values" and "j < length X"
  shows "gains' ! idx = (\<Sum>i<length X. max (X ! i ! idx) (current_values ! i) - current_values ! i)
       \<and> fl_gain X current_values idx
           = (\<Sum>i<length X. max (X ! i ! idx) (current_values ! i) - current_values ! i)
       \<and> fl_current_values (fl_commit X item st) ! j = max (current_values ! j) (X ! j ! item)"
proof (intro conjI)
  from assms(5) have "gains' = fill_gains (fl_gain X current_values) mask_v [0..<length X] gains"
    by (auto simp: select_next_def Let_def split: sum.splits)
  with assms(2,3,4) have "gains' ! idx = fl_gain X current_values idx"
    by (simp add: fill_gains_nth)
  then show "gains' ! idx
      = (\<Sum>i<length X. max (X ! i ! idx) (current_values ! i) - current_values ! i)"
    by (simp add: fl_gain_sum[OF assms(1)])
next
  show "fl_gain X current_values idx
      = (\<Sum>i<length X. max (X ! i ! idx) (current_values ! i) - current_values ! i)"
    by (rule fl_gain_sum[OF assms(1)])
next
  show "fl_current_values (fl_commit X item st) ! j = max (current_values ! j) (X ! j ! item)"
    using fl_commit_current_values[of st X j item] assms(1,6,7) by simp
qed

theorem facility_location_gain_and_update_witness:
  "select_next [[0, 3, 1], [3, 0, 2], [1, 2, 0]] (zeros 3) [3, 0, 2] [0, 1, 0] = Inr ([3, 0, 2], 0)
   \<and> [3, 0, 2 :: real] ! 2 = 2
   \<and> fl_gain [[0, 3, 1], [3, 0, 2], [1, 2, 0]] [3, 0, 2] 2 = 2
   \<and> fl_current_values (fl_commit [[0, 3, 1], [3, 0, 2], [1, 2, 0]] 0
        \<lparr>fl_mask = [0, 1, 0], fl_ranking = [1], fl_current_values = [3, 0, 2],
           fl_gains = Some [4, 5, 3], fl_pq = []\<rparr>) ! 1 = 3"
proof -
  let ?X = "[[0, 3, 1], [3, 0, 2], [1, 2, 0]] :: matrix"
  let ?st = "\<lparr>fl_mask = [0, 1, 0], fl_ranking = [1], fl_current_values = [3, 0, 2],
           fl_gains = Some [4, 5, 3], fl_pq = []\<rparr>"
  have h1: "length [3, 0, 2 :: real] = length ?X" by simp
  have h2: "(2::nat) < length ?X" by simp
  have h3: "length (zeros 3) = length ?X" by (simp add: zeros_def)
  have h4: "[0, 1, 0 :: int] ! 2 \<noteq> 1" by simp
  have h5: "select_next ?X (zeros 3) [3, 0, 2] [0, 1, 0] = Inr ([3, 0, 2], 0)"
    by (simp add: fl_defs np_defs eval_nat)
  have h6: "fl_current_values ?st = [3, 0, 2]" by simp
  have h7: "(1::nat) < length ?X" by simp
  have s: "{..<3::nat} = {0, 1, 2}" by auto
  show ?thesis
    using h5 facility_location_gain_and_update[OF h1 h2 h3 h4 h5 h6 h7, of 0]
    by (simp add: s)
qed


text \<open>
  Claim C5 (gain under the min transform): in a dense round the gain of an unselected item is
  the sum over the features of \<open>min(current_values[f] + X[item, f], 1) - current_concave_values[f]\<close>.
  That is what the lazy loop computes through \<^verbatim>\<open>self.concave_func\<close>; the dense kernel
  \<^verbatim>\<open>select_min_next\<close> takes \<^verbatim>\<open>numpy.fmin(current_values, X[idx])\<close> instead. For the
  one-row dataset \<open>[[2]]\<close> in the initial state the kernel writes the gain 0, the formula
  gives 1.
\<close>

theorem select_min_next_gain_differs:
  "select_min_next [[2]] (zeros 1) [0] [0] [0] = Inr ([0], 0)
   \<and> fb_gain Min_cap [[2]] [0] [0] 0 = 1
   \<and> min ((0::real) + 2) 1 - 0 = 1"
  by (simp add: fb_defs np_defs eval_nat)

text \<open>
  Claim C6 (custom transform): every dense round with a caller-supplied transform fills the
  gains of the unselected items and returns the first unselected index of maximal gain, as the
  named kernels do. \<^verbatim>\<open>select_custom_next\<close> raises as soon as a gain exceeds zero, because
  its update of \<^verbatim>\<open>best_gain\<close> reads the unbound name \<^verbatim>\<open>gain\<close>. With the square root
  passed in as the custom function the kernel fails where \<^verbatim>\<open>select_sqrt_next\<close> returns
  index 0.
\<close>

theorem select_custom_next_unbound_gain:
  "select_custom_next [[1]] (zeros 1) [0] [0] [0] (map sqrt) = Inl (UnboundName ''gain'')
   \<and> select_sqrt_next [[1]] (zeros 1) [0] [0] [0] = Inr ([1], 0)"
  by (simp add: fb_defs np_defs eval_nat)

text \<open>
  Claim C7 (negative input is rejected): \<^verbatim>\<open>fit\<close> of the feature-based selector on a
  dataset with a negative entry fails with the input-domain error
  \<^verbatim>\<open>ValueError("X cannot contain negative values.")\<close> before anything is selected. The
  only place that raises this error is the check \<^verbatim>\<open>numpy.min(X) < 0.0\<close>. On finite
  data it fires whenever an entry is negative (\<open>fb_fit_negative_finite\<close>), but
  \<^verbatim>\<open>numpy.min\<close> of an array that holds a NaN is NaN, and a comparison with NaN is
  false: for the one-row dataset \<open>[[nan, -1.0]]\<close> the checks raise nothing and
  \<^verbatim>\<open>fit\<close> goes on to the selection. The same row without the NaN is rejected.
\<close>

theorem sign_check_misses_negative_beside_nan:
  "fb_fit_checks [[NaN, Finite (- 1)]] = None
   \<and> fb_fit_checks [[Finite 1, Finite (- 1)]] = Some NegativeValues"
  by (simp add: fb_fit_checks_def numpy_min_def)

text \<open>
  Claim C8 (more samples requested than rows): for \<open>k > n\<close> the call fails instead of
  returning a truncated, padded or repeating ranking. The lazy phase fails once the queue is
  empty, but the dense phase has no such stop: with \<open>n_greedy_samples = k = 2\<close> on a
  dataset of one row both selectors return the ranking \<open>[0, 0]\<close>.
\<close>

theorem dense_rounds_exceed_dataset:
  "map_sum id fl_result_ranking (fl_fit 2 2 (\<lambda>X. X) [[0]]) = Inr [Some 0, Some 0]
   \<and> map_sum id fb_ranking (fb_fit 2 Sqrt 2 [[1]]) = Inr [0, 0]"
  by (simp add: fl_defs fb_defs np_defs pq_defs eval_nat)

text \<open>
  Claim C9 (preprocessed similarity matrix): for each named kernel the matrix after
  preprocessing is symmetric, non-negative and has a zero diagonal. Preprocessing zeroes the
  diagonal (\<open>fill_diagonal_nth\<close>) and the \<^verbatim>\<open>'cosine'\<close> kernel is symmetric
  (\<open>cosine_symmetric\<close>), but the \<^verbatim>\<open>'euclidean'\<close> kernel is not: its expression
  evaluates to \<open>2 x\<^sub>i\<cdot>x\<^sub>j + |x\<^sub>i|\<^sup>2 - |x\<^sub>j|\<^sup>2\<close>, with the wrong sign on
  \<open>|x\<^sub>i|\<^sup>2\<close> for a negative squared distance. For the two one-dimensional points 0 and 1
  the preprocessed matrix has the entry \<open>-1\<close> above the diagonal and \<open>1\<close> below it,
  where the class documentation promises a square symmetric matrix.
\<close>

theorem euclidean_similarity_asymmetric:
  "fill_diagonal (pairwise_func (\<lambda>X. X) Euclidean [[0], [1]]) 0 = [[0, - 1], [1, 0]]"
  by (simp add: pairwise_func_def euclidean_def fill_diagonal_def add_col_def mneg_def
      transposeT_def mscale_def gram_def norm_fn_def dot_rows_def column_def eval_nat)

text \<open>The same matrix for any two one-dimensional points \<open>a\<close> and \<open>b\<close>.\<close>

lemma euclidean_two_points:
  "fill_diagonal (euclidean [[a], [b]]) 0
     = [[0, 2 * (a * b) + a * a - b * b], [2 * (a * b) + b * b - a * a, 0]]"
  by (simp add: euclidean_def fill_diagonal_def add_col_def mneg_def
      transposeT_def mscale_def gram_def norm_fn_def dot_rows_def column_def eval_nat
      algebra_simps)




end
